theory Spec2Isabelle
  imports Main
begin

section \<open>Dashboard tab contributions: validation and registration\<close>

text \<open>
  A shallow embedding of the \<^verbatim>\<open>dashboard.tabs\<close> extension point handler
  (\<^verbatim>\<open>handleTab\<close>, the loop of \<^verbatim>\<open>setHandler\<close>) and of the registration of the
  fixed tab groups. The handler is TypeScript running on untyped JSON, so the fields of
  a contribution are JavaScript values; the registry and the diagnostic collectors are
  made explicit as a state the handler threads.
\<close>

subsection \<open>JavaScript values\<close>

text \<open>
  The values a contribution read from an extension manifest can hold. A field that is
  absent reads as \<open>JUndefined\<close> after destructuring. Numbers are only ever tested for
  truthiness here, so integers stand for them. An object is the list of its own
  enumerable properties, one entry per key, in the order JavaScript enumerates them.
\<close>

datatype jsval =
    JUndefined
  | JNull
  | JBool bool
  | JNum int
  | JStr string
  | JArr "jsval list"
  | JObj "(string \<times> jsval) list"

text \<open>JavaScript's \<^verbatim>\<open>!v\<close> is \<open>\<not> truthy v\<close>.\<close>

fun truthy :: "jsval \<Rightarrow> bool" where
  "truthy JUndefined = False"
| "truthy JNull = False"
| "truthy (JBool b) = b"
| "truthy (JNum n) = (n \<noteq> 0)"
| "truthy (JStr s) = (s \<noteq> [])"
| "truthy (JArr xs) = True"
| "truthy (JObj kvs) = True"

text \<open>
  Modelled from the spec: \<^verbatim>\<open>types.isBoolean\<close> of \<^verbatim>\<open>vs/base/common/types\<close>, the
  strict boolean-type check (the value is \<^verbatim>\<open>true\<close> or \<^verbatim>\<open>false\<close> itself).
\<close>

fun isBoolean :: "jsval \<Rightarrow> bool" where
  "isBoolean (JBool b) = True"
| "isBoolean v = False"

text \<open>The decimal rendering of an array index, as a property key.\<close>

fun index_key :: "nat \<Rightarrow> string" where
  "index_key i =
     (if 10 \<le> i then index_key (i div 10) @ [char_of (i mod 10 + 48)]
      else [char_of (i + 48)])"

declare index_key.simps [simp del]

text \<open>
  \<^verbatim>\<open>Object.keys(v)\<close> for a value that is neither \<^verbatim>\<open>undefined\<close> nor \<^verbatim>\<open>null\<close> (the handler
  calls it behind a truthiness test): the keys of an object, the indices of an array
  or of a string, nothing for a boolean or a number.
\<close>

fun object_keys :: "jsval \<Rightarrow> string list" where
  "object_keys (JObj kvs) = map fst kvs"
| "object_keys (JArr xs) = map index_key [0..<length xs]"
| "object_keys (JStr s) = map index_key [0..<length s]"
| "object_keys v = []"

text \<open>
  Modelled from the spec: \<^verbatim>\<open>values\<close> of \<^verbatim>\<open>vs/base/common/collections\<close>, the own
  property values of the container in the order of its keys.
\<close>

fun js_values :: "jsval \<Rightarrow> jsval list" where
  "js_values (JObj kvs) = map snd kvs"
| "js_values (JArr xs) = xs"
| "js_values (JStr s) = map (\<lambda>c. JStr [c]) s"
| "js_values v = []"

subsection \<open>Contributions, extensions, registered tabs\<close>

text \<open>
  \<^verbatim>\<open>IDashboardTabContrib\<close>. A contribution is an object, as its declared type says;
  what each of its fields holds is not checked before the handler runs, so every field
  is a JavaScript value. The fields \<^verbatim>\<open>id\<close>, \<^verbatim>\<open>when\<close> and \<^verbatim>\<open>group\<close> are renamed
  \<open>tab_id\<close>, \<open>when_clause\<close> and \<open>tab_group\<close>.
\<close>

record IDashboardTabContrib =
  tab_id :: jsval
  title :: jsval
  container :: jsval
  provider :: jsval
  when_clause :: jsval
  description :: jsval
  alwaysShow :: jsval
  isHomeTab :: jsval
  tab_group :: jsval
  icon :: jsval

text \<open>The value of an extension point user: one contribution or an array of them.\<close>

datatype contribution =
    Single IDashboardTabContrib
  | Array "IDashboardTabContrib list"

text \<open>
  \<^verbatim>\<open>IExtensionPointUser\<close>: the description of the contributing extension (the handler
  reads its publisher; the identifier names its collector) and the contributed value.
\<close>

record IExtensionDescription =
  ext_identifier :: string
  publisher :: string

record IExtensionPointUser =
  ext_description :: IExtensionDescription
  ext_value :: contribution

text \<open>The object literal passed to \<^verbatim>\<open>registerTab\<close>, fields prefixed with \<open>reg_\<close>.\<close>

record IDashboardTab =
  reg_description :: jsval
  reg_title :: jsval
  reg_container :: jsval
  reg_provider :: jsval
  reg_when :: jsval
  reg_id :: jsval
  reg_alwaysShow :: jsval
  reg_publisher :: string
  reg_isHomeTab :: jsval
  reg_group :: jsval
  reg_iconClass :: "string option"

subsection \<open>Collectors and the registry\<close>

datatype severity = Error | Warning

text \<open>
  One call of \<^verbatim>\<open>collector.error\<close> or \<^verbatim>\<open>collector.warn\<close>: the extension whose collector
  received it, the severity and the message.
\<close>

datatype diagnostic = Diagnostic (owner: string) (level: severity) (message: string)

text \<open>
  The state the handler acts on: the calls of the registration sink \<^verbatim>\<open>registerTab\<close>
  and the calls of the collectors, both in the order they were made.
\<close>

record registry =
  tabs :: "IDashboardTab list"
  collected :: "diagnostic list"

definition registerTab :: "IDashboardTab \<Rightarrow> registry \<Rightarrow> registry" where
  "registerTab t s = s\<lparr>tabs := tabs s @ [t]\<rparr>"

definition collector_error :: "IExtensionPointUser \<Rightarrow> string \<Rightarrow> registry \<Rightarrow> registry" where
  "collector_error extension msg s =
     s\<lparr>collected := collected s @ [Diagnostic (ext_identifier (ext_description extension)) Error msg]\<rparr>"

definition collector_warn :: "IExtensionPointUser \<Rightarrow> string \<Rightarrow> registry \<Rightarrow> registry" where
  "collector_warn extension msg s =
     s\<lparr>collected := collected s @ [Diagnostic (ext_identifier (ext_description extension)) Warning msg]\<rparr>"

text \<open>The messages of \<^verbatim>\<open>localize\<close>, by their keys.\<close>

definition noTitleError :: string where
  "noTitleError = ''No title specified for extension.''"

definition noDescriptionWarning :: string where
  "noDescriptionWarning = ''No description specified to show.''"

definition noContainerError :: string where
  "noContainerError = ''No container specified for extension.''"

definition moreThanOneDashboardContainersError :: string where
  "moreThanOneDashboardContainersError = ''Exactly 1 dashboard container must be defined per space''"

subsection \<open>Constants and helpers of other modules\<close>

text \<open>
  Modelled from the spec: \<^verbatim>\<open>Constants.mssqlProviderName\<close>, the fixed default provider
  name; the schema of the \<^verbatim>\<open>provider\<close> property says it defaults to MSSQL.
\<close>

definition mssqlProviderName :: string where
  "mssqlProviderName = ''MSSQL''"

text \<open>
  Modelled from the spec: the keys of the known container kinds, \<^verbatim>\<open>WIDGETS_CONTAINER\<close>,
  \<^verbatim>\<open>GRID_CONTAINER\<close> and \<^verbatim>\<open>NAV_SECTION\<close>, declared by the container modules.
\<close>

definition WIDGETS_CONTAINER :: string where
  "WIDGETS_CONTAINER = ''widgets-container''"

definition GRID_CONTAINER :: string where
  "GRID_CONTAINER = ''grid-container''"

definition NAV_SECTION :: string where
  "NAV_SECTION = ''nav-section''"

text \<open>
  The container validators, the icon validator and the icon rule generator live in
  other modules and are parameters of the handler. A validator is given the extension
  and a value, returns its verdict and reports through the extension's collector: the
  model returns the verdict with the reports it makes, in order. The helpers are
  taken to return; what else they do (installing CSS rules) is not observed by the
  handler.
\<close>

type_synonym report = "severity \<times> string"

record helpers =
  validateWidgetContainerContribution :: "IExtensionPointUser \<Rightarrow> jsval \<Rightarrow> bool \<times> report list"
  validateGridContainerContribution :: "IExtensionPointUser \<Rightarrow> jsval \<Rightarrow> bool \<times> report list"
  validateNavSectionContributionAndRegisterIcon :: "IExtensionPointUser \<Rightarrow> jsval \<Rightarrow> bool \<times> report list"
  isValidIcon :: "jsval \<Rightarrow> IExtensionPointUser \<Rightarrow> bool \<times> report list"
  createCSSRuleForIcon :: "jsval \<Rightarrow> IExtensionPointUser \<Rightarrow> string"

text \<open>The reports of a helper, as received by the collector of the extension.\<close>

definition received :: "IExtensionPointUser \<Rightarrow> report list \<Rightarrow> diagnostic list" where
  "received extension rs =
     map (\<lambda>r. Diagnostic (ext_identifier (ext_description extension)) (fst r) (snd r)) rs"

definition collect :: "IExtensionPointUser \<Rightarrow> report list \<Rightarrow> registry \<Rightarrow> registry" where
  "collect extension rs s = s\<lparr>collected := collected s @ received extension rs\<rparr>"

subsection \<open>The handler\<close>

text \<open>
  The \<^verbatim>\<open>switch (containerkey)\<close> of \<^verbatim>\<open>handleTab\<close>: the validator of the container
  kind decides; the switch has no default case, so for any other key the result keeps
  its initial value \<^verbatim>\<open>true\<close> and nothing is reported.
\<close>

definition switch_containerkey ::
  "helpers \<Rightarrow> IExtensionPointUser \<Rightarrow> string \<Rightarrow> jsval \<Rightarrow> bool \<times> report list" where
  "switch_containerkey env extension containerkey containerValue =
     (if containerkey = WIDGETS_CONTAINER
      then validateWidgetContainerContribution env extension containerValue
      else if containerkey = GRID_CONTAINER
      then validateGridContainerContribution env extension containerValue
      else if containerkey = NAV_SECTION
      then validateNavSectionContributionAndRegisterIcon env extension containerValue
      else (True, []))"

text \<open>
  \<^verbatim>\<open>handleTab\<close>, statement by statement: the default of \<^verbatim>\<open>alwaysShow\<close>, the title
  check, the description warning, the container check, the default provider, the
  arity check, the switch on the container key, the icon, and the registration behind
  the result of the switch.
\<close>

definition handleTab ::
  "helpers \<Rightarrow> IDashboardTabContrib \<Rightarrow> IExtensionPointUser \<Rightarrow> registry \<Rightarrow> registry" where
  "handleTab env tab extension s =
    (let alwaysShow' = (if \<not> isBoolean (alwaysShow tab) then JBool True else alwaysShow tab);
         publisher' = publisher (ext_description extension)
     in
     if \<not> truthy (title tab) then collector_error extension noTitleError s
     else
       let s1 = (if \<not> truthy (description tab)
                 then collector_warn extension noDescriptionWarning s else s)
       in
       if \<not> truthy (container tab) then collector_error extension noContainerError s1
       else
         let provider' = (if \<not> truthy (provider tab) then JStr mssqlProviderName else provider tab);
             isHomeTab' = (if \<not> truthy (provider tab) then JBool False else isHomeTab tab)
         in
         if length (object_keys (container tab)) \<noteq> 1
         then collector_error extension moreThanOneDashboardContainersError s1
         else
           let containerkey = object_keys (container tab) ! 0;
               containerValue = js_values (container tab) ! 0;
               verdict = switch_containerkey env extension containerkey containerValue;
               result = fst verdict;
               s2 = collect extension (snd verdict) s1;
               valid = isValidIcon env (icon tab) extension;
               s3 = collect extension (snd valid) s2;
               iconClass = (if fst valid
                            then Some (createCSSRuleForIcon env (icon tab) extension) else None)
           in
           if result
           then registerTab
                  \<lparr>reg_description = description tab, reg_title = title tab,
                   reg_container = container tab, reg_provider = provider',
                   reg_when = when_clause tab, reg_id = tab_id tab,
                   reg_alwaysShow = alwaysShow', reg_publisher = publisher',
                   reg_isHomeTab = isHomeTab', reg_group = tab_group tab,
                   reg_iconClass = iconClass\<rparr> s3
           else s3)"



subsection \<open>Tab groups\<close>

record IDashboardTabGroup =
  group_id :: string
  group_title :: string

definition TabGroups :: "IDashboardTabGroup list" where
  "TabGroups =
     [\<lparr>group_id = ''administration'', group_title = ''Administration''\<rparr>,
      \<lparr>group_id = ''monitoring'', group_title = ''Monitoring''\<rparr>,
      \<lparr>group_id = ''performance'', group_title = ''Performance''\<rparr>,
      \<lparr>group_id = ''security'', group_title = ''Security''\<rparr>,
      \<lparr>group_id = ''troubleshooting'', group_title = ''Troubleshooting''\<rparr>,
      \<lparr>group_id = ''settings'', group_title = ''Settings''\<rparr>]"

text \<open>
  The sink \<^verbatim>\<open>registerTabGroup\<close>, as the sequence of its calls, and the
  \<^verbatim>\<open>forEach\<close> that runs when the module is loaded.
\<close>

definition registerTabGroup :: "IDashboardTabGroup \<Rightarrow> IDashboardTabGroup list \<Rightarrow> IDashboardTabGroup list" where
  "registerTabGroup tabGroup gs = gs @ [tabGroup]"

definition registerTabGroups :: "IDashboardTabGroup list \<Rightarrow> IDashboardTabGroup list" where
  "registerTabGroups gs = foldl (\<lambda>gs' tabGroup. registerTabGroup tabGroup gs') gs TabGroups"

subsection \<open>Reading a run of the handler\<close>

definition empty_registry :: registry where
  "empty_registry = \<lparr>tabs = [], collected = []\<rparr>"

text \<open>What a run from \<open>s\<close> to \<open>s'\<close> sent to the collectors, and how many errors.\<close>

definition emitted :: "registry \<Rightarrow> registry \<Rightarrow> diagnostic list" where
  "emitted s s' = drop (length (collected s)) (collected s')"

definition count_errors :: "diagnostic list \<Rightarrow> nat" where
  "count_errors ds = length (filter (\<lambda>d. level d = Error) ds)"

definition errors_in :: "report list \<Rightarrow> nat" where
  "errors_in rs = length (filter (\<lambda>r. fst r = Error) rs)"

text \<open>The warning of the description check, when it is given.\<close>

definition description_warning :: "IExtensionPointUser \<Rightarrow> IDashboardTabContrib \<Rightarrow> diagnostic list" where
  "description_warning extension tab =
     (if truthy (description tab) then []
      else [Diagnostic (ext_identifier (ext_description extension)) Warning noDescriptionWarning])"


text \<open>
  The specification's structural errors: a contribution with no title, with no
  container, or whose container does not have exactly one key.
\<close>

definition spec_invalid :: "IDashboardTabContrib \<Rightarrow> bool" where
  "spec_invalid tab =
     (\<not> truthy (title tab) \<or> \<not> truthy (container tab)
      \<or> length (object_keys (container tab)) \<noteq> 1)"

text \<open>
  The specification's kind dispatch: the container key is looked up in the fixed set
  of known kinds and the validator of that kind gives the verdict, with its reports; a
  key that is not in the set is accepted, with no report.
\<close>

definition spec_known_kinds ::
  "helpers \<Rightarrow> (string \<times> (IExtensionPointUser \<Rightarrow> jsval \<Rightarrow> bool \<times> report list)) list" where
  "spec_known_kinds env =
     [(''widgets-container'', validateWidgetContainerContribution env),
      (''grid-container'', validateGridContainerContribution env),
      (''nav-section'', validateNavSectionContributionAndRegisterIcon env)]"

definition spec_kind_verdict ::
  "helpers \<Rightarrow> IExtensionPointUser \<times> IDashboardTabContrib \<Rightarrow> bool \<times> report list" where
  "spec_kind_verdict env p =
     (case map_of (spec_known_kinds env) (object_keys (container (snd p)) ! 0) of
        None \<Rightarrow> (True, [])
      | Some validate \<Rightarrow> validate (fst p) (js_values (container (snd p)) ! 0))"

text \<open>
  The specification's rejected record: one with a structural error, or one whose
  container kind validator refuses its value.
\<close>

definition spec_rejected :: "helpers \<Rightarrow> IExtensionPointUser \<times> IDashboardTabContrib \<Rightarrow> bool" where
  "spec_rejected env p = (spec_invalid (snd p) \<or> \<not> fst (spec_kind_verdict env p))"


text \<open>
  The specification's normalized record of a contribution: its fields without the
  icon, the defaults of \<^verbatim>\<open>alwaysShow\<close> and \<^verbatim>\<open>provider\<close>, the publisher of the extension
  and the icon class.
\<close>

definition spec_normalized :: "helpers \<Rightarrow> IExtensionPointUser \<times> IDashboardTabContrib \<Rightarrow> IDashboardTab" where
  "spec_normalized env p =
     (let extension = fst p; tab = snd p in
      \<lparr>reg_description = description tab, reg_title = title tab,
       reg_container = container tab,
       reg_provider = (if truthy (provider tab) then provider tab else JStr mssqlProviderName),
       reg_when = when_clause tab, reg_id = tab_id tab,
       reg_alwaysShow = (if isBoolean (alwaysShow tab) then alwaysShow tab else JBool True),
       reg_publisher = publisher (ext_description extension),
       reg_isHomeTab = (if truthy (provider tab) then isHomeTab tab else JBool False),
       reg_group = tab_group tab,
       reg_iconClass = (if fst (isValidIcon env (icon tab) extension)
                        then Some (createCSSRuleForIcon env (icon tab) extension) else None)\<rparr>)"

subsection \<open>Sample helpers and contributions\<close>

text \<open>
  Modelled from the spec: \<^verbatim>\<open>isValidIcon\<close> of the icon utilities. An absent icon is not
  valid and not reported; a string path or an object with string paths \<^verbatim>\<open>light\<close> and
  \<^verbatim>\<open>dark\<close> is valid; any other shape is reported and not valid.
\<close>

definition invalidIconError :: string where
  "invalidIconError = ''property icon can be omitted or must be either a string or a literal like {dark, light}''"

fun is_string :: "jsval option \<Rightarrow> bool" where
  "is_string (Some (JStr p)) = True"
| "is_string v = False"

fun spec_isValidIcon :: "jsval \<Rightarrow> IExtensionPointUser \<Rightarrow> bool \<times> report list" where
  "spec_isValidIcon JUndefined extension = (False, [])"
| "spec_isValidIcon (JStr p) extension = (True, [])"
| "spec_isValidIcon (JObj kvs) extension =
     (if is_string (map_of kvs ''dark'') \<and> is_string (map_of kvs ''light'')
      then (True, []) else (False, [(Error, invalidIconError)]))"
| "spec_isValidIcon v extension = (False, [(Error, invalidIconError)])"

text \<open>
  Sample helpers to run the handler on concrete contributions: every container
  validator accepts an array and rejects anything else with an error; the icon class
  is a token made of the extension's identifier.
\<close>

fun sample_validator :: "IExtensionPointUser \<Rightarrow> jsval \<Rightarrow> bool \<times> report list" where
  "sample_validator extension (JArr xs) = (True, [])"
| "sample_validator extension v = (False, [(Error, ''the container must be a list'')])"

definition sample_helpers :: helpers where
  "sample_helpers =
     \<lparr>validateWidgetContainerContribution = sample_validator,
      validateGridContainerContribution = sample_validator,
      validateNavSectionContributionAndRegisterIcon = sample_validator,
      isValidIcon = spec_isValidIcon,
      createCSSRuleForIcon = (\<lambda>icon extension. ext_identifier (ext_description extension) @ ''-icon'')\<rparr>"

text \<open>A contribution with every field absent, to build samples from.\<close>

definition absent_tab :: IDashboardTabContrib where
  "absent_tab =
     \<lparr>tab_id = JUndefined, title = JUndefined, container = JUndefined, provider = JUndefined,
      when_clause = JUndefined, description = JUndefined, alwaysShow = JUndefined,
      isHomeTab = JUndefined, tab_group = JUndefined, icon = JUndefined\<rparr>"

text \<open>The scenario of the specification: a tab titled Tasks with a widgets container for MSSQL.\<close>

definition tasks_tab :: IDashboardTabContrib where
  "tasks_tab =
     absent_tab\<lparr>title := JStr ''Tasks'',
                container := JObj [(''widgets-container'', JArr [])],
                provider := JStr ''MSSQL''\<rparr>"

definition sample_extension :: "contribution \<Rightarrow> IExtensionPointUser" where
  "sample_extension v =
     \<lparr>ext_description = \<lparr>ext_identifier = ''contoso.tabs'', publisher = ''contoso''\<rparr>,
      ext_value = v\<rparr>"




section \<open>Properties\<close>

subsection \<open>One contribution\<close>

lemmas sink_defs = registerTab_def collector_error_def collector_warn_def collect_def

lemma count_errors_append: "count_errors (xs @ ys) = count_errors xs + count_errors ys"
  by (simp add: count_errors_def)

lemma count_errors_received: "count_errors (received extension rs) = errors_in rs"
  by (induction rs) (simp_all add: count_errors_def received_def errors_in_def)

lemma count_errors_warning: "count_errors (description_warning extension tab) = 0"
  by (simp add: count_errors_def description_warning_def)

lemma count_errors_Nil: "count_errors [] = 0"
  by (simp add: count_errors_def)

lemma count_errors_Cons:
  "count_errors (d # ds) = (if level d = Error then 1 else 0) + count_errors ds"
  by (simp add: count_errors_def)


lemma errors_in_append: "errors_in (xs @ ys) = errors_in xs + errors_in ys"
  by (simp add: errors_in_def)


lemma switch_containerkey_spec:
  "switch_containerkey env extension (object_keys (container tab) ! 0)
     (js_values (container tab) ! 0) = spec_kind_verdict env (extension, tab)"
  by (simp add: switch_containerkey_def spec_kind_verdict_def spec_known_kinds_def
      WIDGETS_CONTAINER_def GRID_CONTAINER_def NAV_SECTION_def)



lemma handleTab_accepted:
  assumes "\<not> spec_rejected env (extension, tab)"
  shows "handleTab env tab extension s =
     s\<lparr>tabs := tabs s @ [spec_normalized env (extension, tab)],
       collected := collected s @ description_warning extension tab
         @ received extension (snd (switch_containerkey env extension
              (object_keys (container tab) ! 0) (js_values (container tab) ! 0)))
         @ received extension (snd (isValidIcon env (icon tab) extension))\<rparr>"
  using assms
  by (simp add: handleTab_def Let_def sink_defs spec_rejected_def spec_invalid_def
      spec_normalized_def description_warning_def
      switch_containerkey_spec [of env extension tab, symmetric])


text \<open>
  C1. A contribution whose provider is absent: if it is registered, the registered
  record has the default provider name and \<open>isHomeTab = false\<close>, whatever the
  contribution gave for \<open>isHomeTab\<close>.
\<close>

theorem provider_absent_defaults:
  assumes "provider tab = JUndefined"
    and "tabs (handleTab env tab extension s) = tabs s @ [r]"
  shows "reg_provider r = JStr mssqlProviderName \<and> reg_isHomeTab r = JBool False"
  using assms by (auto simp: handleTab_def Let_def sink_defs split: if_splits)

theorem provider_absent_defaults_witness:
  "provider (tasks_tab\<lparr>provider := JUndefined, isHomeTab := JBool True\<rparr>) = JUndefined
   \<and> isHomeTab (tasks_tab\<lparr>provider := JUndefined, isHomeTab := JBool True\<rparr>) = JBool True
   \<and> map reg_provider (tabs (handleTab sample_helpers
         (tasks_tab\<lparr>provider := JUndefined, isHomeTab := JBool True\<rparr>)
         (sample_extension (Single absent_tab)) empty_registry)) = [JStr ''MSSQL'']
   \<and> map reg_isHomeTab (tabs (handleTab sample_helpers
         (tasks_tab\<lparr>provider := JUndefined, isHomeTab := JBool True\<rparr>)
         (sample_extension (Single absent_tab)) empty_registry)) = [JBool False]"
proof -
  let ?tab = "tasks_tab\<lparr>provider := JUndefined, isHomeTab := JBool True\<rparr>"
  let ?ext = "sample_extension (Single absent_tab)"
  have p: "provider ?tab = JUndefined" by simp
  have h: "isHomeTab ?tab = JBool True" by simp
  have t: "tabs (handleTab sample_helpers ?tab ?ext empty_registry)
       = tabs empty_registry @ [spec_normalized sample_helpers (?ext, ?tab)]"
    by code_simp
  from provider_absent_defaults [OF p t] p h t show ?thesis
    by (simp add: mssqlProviderName_def empty_registry_def)
qed

text \<open>
  C9. A contribution whose provider is the empty string is handled exactly as the same
  contribution with no provider (the check is \<^verbatim>\<open>!provider\<close>): if it is registered, the
  record has the default provider name and \<open>isHomeTab = false\<close>.
\<close>

theorem empty_provider_as_absent:
  assumes "provider tab = JStr ''''"
  shows "handleTab env tab extension s = handleTab env (tab\<lparr>provider := JUndefined\<rparr>) extension s
     \<and> (tabs (handleTab env tab extension s) = tabs s @ [r] \<longrightarrow>
          reg_provider r = JStr mssqlProviderName \<and> reg_isHomeTab r = JBool False)"
  using assms by (auto simp: handleTab_def Let_def sink_defs split: if_splits)

theorem empty_provider_as_absent_witness:
  "provider (tasks_tab\<lparr>provider := JStr '''', isHomeTab := JBool True\<rparr>) = JStr ''''
   \<and> handleTab sample_helpers (tasks_tab\<lparr>provider := JStr '''', isHomeTab := JBool True\<rparr>)
        (sample_extension (Single tasks_tab)) empty_registry
     = handleTab sample_helpers (tasks_tab\<lparr>provider := JUndefined, isHomeTab := JBool True\<rparr>)
        (sample_extension (Single tasks_tab)) empty_registry
   \<and> map reg_provider (tabs (handleTab sample_helpers
        (tasks_tab\<lparr>provider := JStr '''', isHomeTab := JBool True\<rparr>)
        (sample_extension (Single tasks_tab)) empty_registry)) = [JStr ''MSSQL'']
   \<and> map reg_isHomeTab (tabs (handleTab sample_helpers
        (tasks_tab\<lparr>provider := JStr '''', isHomeTab := JBool True\<rparr>)
        (sample_extension (Single tasks_tab)) empty_registry)) = [JBool False]"
proof -
  let ?ext = "sample_extension (Single tasks_tab)"
  let ?tab = "tasks_tab\<lparr>provider := JStr '''', isHomeTab := JBool True\<rparr>"
  have p: "provider ?tab = JStr ''''" by simp
  have t: "tabs (handleTab sample_helpers ?tab ?ext empty_registry)
       = tabs empty_registry @ [spec_normalized sample_helpers (?ext, ?tab)]"
    by code_simp
  note main = empty_provider_as_absent [OF p, of sample_helpers ?ext empty_registry
      "spec_normalized sample_helpers (?ext, ?tab)"]
  from main have e: "handleTab sample_helpers ?tab ?ext empty_registry
      = handleTab sample_helpers (?tab\<lparr>provider := JUndefined\<rparr>) ?ext empty_registry"
    by (rule conjunct1)
  from main t have r: "reg_provider (spec_normalized sample_helpers (?ext, ?tab)) = JStr mssqlProviderName
      \<and> reg_isHomeTab (spec_normalized sample_helpers (?ext, ?tab)) = JBool False"
    by blast
  from p e t r show ?thesis
    by (simp add: mssqlProviderName_def empty_registry_def tasks_tab_def absent_tab_def)
qed

text \<open>
  C6. The registered record has \<open>alwaysShow = true\<close> when the contribution's
  \<open>alwaysShow\<close> is absent or is not a boolean, and the contribution's own value when
  it is a boolean, \<open>false\<close> included.
\<close>

theorem alwaysShow_default:
  assumes "tabs (handleTab env tab extension s) = tabs s @ [r]"
  shows "(alwaysShow tab = JUndefined \<longrightarrow> reg_alwaysShow r = JBool True)
     \<and> (\<not> isBoolean (alwaysShow tab) \<longrightarrow> reg_alwaysShow r = JBool True)
     \<and> (isBoolean (alwaysShow tab) \<longrightarrow> reg_alwaysShow r = alwaysShow tab)"
  using assms by (auto simp: handleTab_def Let_def sink_defs split: if_splits)

theorem alwaysShow_default_witness:
  "map reg_alwaysShow (tabs (handleTab sample_helpers tasks_tab
       (sample_extension (Single tasks_tab)) empty_registry)) = [JBool True]
   \<and> map reg_alwaysShow (tabs (handleTab sample_helpers (tasks_tab\<lparr>alwaysShow := JStr ''no''\<rparr>)
       (sample_extension (Single tasks_tab)) empty_registry)) = [JBool True]
   \<and> map reg_alwaysShow (tabs (handleTab sample_helpers (tasks_tab\<lparr>alwaysShow := JBool False\<rparr>)
       (sample_extension (Single tasks_tab)) empty_registry)) = [JBool False]"
proof -
  let ?ext = "sample_extension (Single tasks_tab)"
  let ?no = "tasks_tab\<lparr>alwaysShow := JStr ''no''\<rparr>"
  let ?off = "tasks_tab\<lparr>alwaysShow := JBool False\<rparr>"
  have a: "tabs (handleTab sample_helpers tasks_tab ?ext empty_registry)
       = tabs empty_registry @ [spec_normalized sample_helpers (?ext, tasks_tab)]"
    by code_simp
  have b: "tabs (handleTab sample_helpers ?no ?ext empty_registry)
       = tabs empty_registry @ [spec_normalized sample_helpers (?ext, ?no)]"
    by code_simp
  have c: "tabs (handleTab sample_helpers ?off ?ext empty_registry)
       = tabs empty_registry @ [spec_normalized sample_helpers (?ext, ?off)]"
    by code_simp
  have u: "alwaysShow tasks_tab = JUndefined" by (simp add: tasks_tab_def absent_tab_def)
  have n: "\<not> isBoolean (alwaysShow ?no)" by simp
  have f: "isBoolean (alwaysShow ?off)" by simp
  from alwaysShow_default [OF a] u
  have 1: "reg_alwaysShow (spec_normalized sample_helpers (?ext, tasks_tab)) = JBool True"
    by blast
  from alwaysShow_default [OF b] n
  have 2: "reg_alwaysShow (spec_normalized sample_helpers (?ext, ?no)) = JBool True"
    by blast
  from alwaysShow_default [OF c] f
  have 3: "reg_alwaysShow (spec_normalized sample_helpers (?ext, ?off)) = JBool False"
    by simp
  from a b c 1 2 3 show ?thesis
    by (simp add: empty_registry_def)
qed

text \<open>
  C3. A contribution with a title and a container whose single key is none of the known
  kinds (widgets container, grid container, navigation section): the switch keeps the
  result true and reports nothing, and the contribution is registered; the collector
  receives the description warning, if any, and what the icon validator reports, and
  nothing about the unknown kind.
\<close>

theorem unknown_kind_accepted:
  assumes "truthy (title tab)" and "truthy (container tab)"
    and "object_keys (container tab) = [k]"
    and "k \<noteq> WIDGETS_CONTAINER" and "k \<noteq> GRID_CONTAINER" and "k \<noteq> NAV_SECTION"
  shows "switch_containerkey env extension k v = (True, [])
     \<and> handleTab env tab extension s =
         s\<lparr>tabs := tabs s @ [spec_normalized env (extension, tab)],
           collected := collected s @ description_warning extension tab
             @ received extension (snd (isValidIcon env (icon tab) extension))\<rparr>"
proof -
  have sw: "switch_containerkey env extension k v = (True, [])" for v
    using assms(4-6) by (simp add: switch_containerkey_def)
  have "\<not> spec_rejected env (extension, tab)"
    using assms(1-3)
    by (simp add: spec_rejected_def spec_invalid_def
        switch_containerkey_spec [of env extension tab, symmetric] sw)
  from handleTab_accepted [OF this, of s] show ?thesis
    using assms(3) by (simp add: sw received_def)
qed

theorem unknown_kind_accepted_witness:
  "truthy (title (tasks_tab\<lparr>container := JObj [(''webview-container'', JNull)]\<rparr>))
   \<and> object_keys (container (tasks_tab\<lparr>container := JObj [(''webview-container'', JNull)]\<rparr>))
       = [''webview-container'']
   \<and> map reg_container (tabs (handleTab sample_helpers
         (tasks_tab\<lparr>container := JObj [(''webview-container'', JNull)]\<rparr>)
         (sample_extension (Single absent_tab)) empty_registry))
       = [JObj [(''webview-container'', JNull)]]
   \<and> collected (handleTab sample_helpers
         (tasks_tab\<lparr>container := JObj [(''webview-container'', JNull)]\<rparr>)
         (sample_extension (Single absent_tab)) empty_registry)
       = [Diagnostic ''contoso.tabs'' Warning noDescriptionWarning]"
proof -
  let ?tab = "tasks_tab\<lparr>container := JObj [(''webview-container'', JNull)]\<rparr>"
  let ?ext = "sample_extension (Single absent_tab)"
  have t: "truthy (title ?tab)" by (simp add: tasks_tab_def)
  have c: "truthy (container ?tab)" by simp
  have k: "object_keys (container ?tab) = [''webview-container'']" by simp
  have w: "''webview-container'' \<noteq> WIDGETS_CONTAINER" by (simp add: WIDGETS_CONTAINER_def)
  have g: "''webview-container'' \<noteq> GRID_CONTAINER" by (simp add: GRID_CONTAINER_def)
  have n: "''webview-container'' \<noteq> NAV_SECTION" by (simp add: NAV_SECTION_def)
  from unknown_kind_accepted [OF t c k w g n, of sample_helpers ?ext JNull empty_registry] t k
  show ?thesis
    by (simp add: spec_normalized_def description_warning_def received_def sample_helpers_def
        sample_extension_def tasks_tab_def absent_tab_def empty_registry_def)
qed

text \<open>
  C4. A contribution with a non-empty title whose container has no key or more than
  one: nothing is registered, the collector receives exactly one error (after the
  description warning, if any), and the handler stops there, whatever the container
  validators and the icon helpers are.
\<close>

theorem container_arity_error:
  assumes "title tab = JStr t" and "t \<noteq> []"
    and "container tab = JObj kvs" and "length kvs \<noteq> 1"
  shows "handleTab env tab extension s =
         s\<lparr>collected := collected s @ description_warning extension tab
             @ [Diagnostic (ext_identifier (ext_description extension)) Error
                  moreThanOneDashboardContainersError]\<rparr>
     \<and> tabs (handleTab env tab extension s) = tabs s
     \<and> count_errors (emitted s (handleTab env tab extension s)) = 1
     \<and> handleTab env tab extension s = handleTab env' tab extension s"
proof -
  have e: "handleTab env tab extension s =
         s\<lparr>collected := collected s @ description_warning extension tab
             @ [Diagnostic (ext_identifier (ext_description extension)) Error
                  moreThanOneDashboardContainersError]\<rparr>" for env
    using assms by (simp add: handleTab_def Let_def sink_defs description_warning_def)
  have "count_errors (emitted s (handleTab env tab extension s)) = 1"
    by (simp add: e [of env] emitted_def count_errors_append count_errors_warning)
       (simp add: count_errors_def)
  then show ?thesis
    using e [of env] e [of env'] by simp
qed

theorem container_arity_error_witness:
  "handleTab sample_helpers (tasks_tab\<lparr>container := JObj []\<rparr>)
       (sample_extension (Single absent_tab)) empty_registry
     = \<lparr>tabs = [], collected =
          [Diagnostic ''contoso.tabs'' Warning noDescriptionWarning,
           Diagnostic ''contoso.tabs'' Error moreThanOneDashboardContainersError]\<rparr>
   \<and> handleTab sample_helpers
       (tasks_tab\<lparr>description := JStr ''All tasks'',
          container := JObj [(''widgets-container'', JArr []), (''grid-container'', JArr [])]\<rparr>)
       (sample_extension (Single absent_tab)) empty_registry
     = \<lparr>tabs = [], collected =
          [Diagnostic ''contoso.tabs'' Error moreThanOneDashboardContainersError]\<rparr>"
proof -
  let ?ext = "sample_extension (Single absent_tab)"
  let ?none = "tasks_tab\<lparr>container := JObj []\<rparr>"
  let ?two = "tasks_tab\<lparr>description := JStr ''All tasks'',
          container := JObj [(''widgets-container'', JArr []), (''grid-container'', JArr [])]\<rparr>"
  have t0: "title ?none = JStr ''Tasks''" and t2: "title ?two = JStr ''Tasks''"
    by (simp_all add: tasks_tab_def)
  have ne: "''Tasks'' \<noteq> []" by simp
  have c0: "container ?none = JObj []" by simp
  have c2: "container ?two = JObj [(''widgets-container'', JArr []), (''grid-container'', JArr [])]"
    by simp
  have l0: "length ([] :: (string \<times> jsval) list) \<noteq> 1" by simp
  have l2: "length [(''widgets-container'', JArr []), (''grid-container'', JArr [])] \<noteq> 1"
    by simp
  from container_arity_error [OF t0 ne c0 l0, of sample_helpers ?ext empty_registry sample_helpers]
    container_arity_error [OF t2 ne c2 l2, of sample_helpers ?ext empty_registry sample_helpers]
  show ?thesis
    by (simp add: description_warning_def sample_extension_def tasks_tab_def absent_tab_def
        empty_registry_def)
qed

text \<open>
  C5 (amended). The contribution of the scenario, titled Tasks, with a widgets container
  holding a list and the provider MSSQL, and with \<open>alwaysShow\<close> and \<open>isHomeTab\<close>
  absent: when the widget container validator accepts the list, the handler registers
  exactly one record, with the provider MSSQL, \<open>alwaysShow = true\<close> and \<open>isHomeTab\<close>
  passed through as it came, that is absent (undefined), not the boolean false.
\<close>

theorem tasks_scenario:
  assumes "title tab = JStr ''Tasks''"
    and "container tab = JObj [(''widgets-container'', JArr ws)]"
    and "provider tab = JStr ''MSSQL''"
    and "alwaysShow tab = JUndefined" and "isHomeTab tab = JUndefined"
    and "fst (validateWidgetContainerContribution env extension (JArr ws))"
  shows "\<exists>r. tabs (handleTab env tab extension s) = tabs s @ [r]
     \<and> reg_provider r = JStr ''MSSQL'' \<and> reg_alwaysShow r = JBool True
     \<and> reg_isHomeTab r = JUndefined"
  using assms
  by (simp add: handleTab_def Let_def sink_defs switch_containerkey_def WIDGETS_CONTAINER_def)

theorem tasks_scenario_witness:
  "fst (validateWidgetContainerContribution sample_helpers
      (sample_extension (Single tasks_tab)) (JArr []))
   \<and> length (tabs (handleTab sample_helpers tasks_tab
        (sample_extension (Single tasks_tab)) empty_registry)) = 1
   \<and> map reg_provider (tabs (handleTab sample_helpers tasks_tab
        (sample_extension (Single tasks_tab)) empty_registry)) = [JStr ''MSSQL'']
   \<and> map reg_alwaysShow (tabs (handleTab sample_helpers tasks_tab
        (sample_extension (Single tasks_tab)) empty_registry)) = [JBool True]
   \<and> map reg_isHomeTab (tabs (handleTab sample_helpers tasks_tab
        (sample_extension (Single tasks_tab)) empty_registry)) = [JUndefined]"
proof -
  let ?ext = "sample_extension (Single tasks_tab)"
  have v: "fst (validateWidgetContainerContribution sample_helpers ?ext (JArr []))"
    by (simp add: sample_helpers_def)
  have t: "title tasks_tab = JStr ''Tasks''"
    and c: "container tasks_tab = JObj [(''widgets-container'', JArr [])]"
    and p: "provider tasks_tab = JStr ''MSSQL''"
    and a: "alwaysShow tasks_tab = JUndefined" and h: "isHomeTab tasks_tab = JUndefined"
    by (simp_all add: tasks_tab_def absent_tab_def)
  have "\<exists>r. tabs (handleTab sample_helpers tasks_tab ?ext empty_registry) = tabs empty_registry @ [r]
     \<and> reg_provider r = JStr ''MSSQL'' \<and> reg_alwaysShow r = JBool True
     \<and> reg_isHomeTab r = JUndefined"
    by (rule tasks_scenario [OF t c p a h v])
  then obtain r where "tabs (handleTab sample_helpers tasks_tab ?ext empty_registry) = [r]"
    and "reg_provider r = JStr ''MSSQL''" and "reg_alwaysShow r = JBool True"
    and "reg_isHomeTab r = JUndefined"
    by (auto simp: empty_registry_def)
  with v show ?thesis by simp
qed

text \<open>
  The scenario run on the sample helpers: the one registered record has an undefined
  \<open>isHomeTab\<close>, which is not the boolean false.
\<close>

theorem tasks_isHomeTab_counterexample:
  "length (tabs (handleTab sample_helpers tasks_tab
      (sample_extension (Single tasks_tab)) empty_registry)) = 1
   \<and> map reg_isHomeTab (tabs (handleTab sample_helpers tasks_tab
        (sample_extension (Single tasks_tab)) empty_registry)) = [JUndefined]
   \<and> map reg_isHomeTab (tabs (handleTab sample_helpers tasks_tab
        (sample_extension (Single tasks_tab)) empty_registry)) \<noteq> [JBool False]"
  by (simp add: handleTab_def Let_def sink_defs switch_containerkey_def WIDGETS_CONTAINER_def
      tasks_tab_def absent_tab_def sample_helpers_def sample_extension_def empty_registry_def)

text \<open>
  C7. A contribution that passes the title, container, arity and container kind checks
  is registered whatever its icon is: when the icon validator accepts the icon, the
  registered record carries the class that the rule generator returns for it; when
  the validator does not (the number 42, say), the record is registered with no icon
  class.
\<close>

theorem icon_degrades:
  assumes "truthy (title tab)" and "truthy (container tab)"
    and "length (object_keys (container tab)) = 1"
    and "fst (switch_containerkey env extension
           (object_keys (container tab) ! 0) (js_values (container tab) ! 0))"
  shows "(fst (isValidIcon env (icon tab) extension) \<longrightarrow>
          (\<exists>r. tabs (handleTab env tab extension s) = tabs s @ [r]
             \<and> reg_iconClass r = Some (createCSSRuleForIcon env (icon tab) extension)))
     \<and> (\<not> fst (isValidIcon env (icon tab) extension) \<longrightarrow>
          (\<exists>r. tabs (handleTab env tab extension s) = tabs s @ [r] \<and> reg_iconClass r = None))"
  using assms by (simp add: handleTab_def Let_def sink_defs)

theorem icon_degrades_witness:
  "\<not> fst (isValidIcon sample_helpers (JNum 42) (sample_extension (Single tasks_tab)))
   \<and> map reg_iconClass (tabs (handleTab sample_helpers (tasks_tab\<lparr>icon := JNum 42\<rparr>)
        (sample_extension (Single tasks_tab)) empty_registry)) = [None]
   \<and> fst (isValidIcon sample_helpers (JObj [(''light'', JStr ''a.svg''), (''dark'', JStr ''b.svg'')])
        (sample_extension (Single tasks_tab)))
   \<and> map reg_iconClass (tabs (handleTab sample_helpers
        (tasks_tab\<lparr>icon := JObj [(''light'', JStr ''a.svg''), (''dark'', JStr ''b.svg'')]\<rparr>)
        (sample_extension (Single tasks_tab)) empty_registry)) = [Some ''contoso.tabs-icon'']"
proof -
  let ?ext = "sample_extension (Single tasks_tab)"
  let ?pair = "JObj [(''light'', JStr ''a.svg''), (''dark'', JStr ''b.svg'')]"
  let ?bad = "tasks_tab\<lparr>icon := JNum 42\<rparr>"
  let ?good = "tasks_tab\<lparr>icon := ?pair\<rparr>"
  have n: "\<not> fst (isValidIcon sample_helpers (JNum 42) ?ext)"
    by (simp add: sample_helpers_def)
  have y: "fst (isValidIcon sample_helpers ?pair ?ext)"
    by (simp add: sample_helpers_def)
  have b: "\<exists>r. tabs (handleTab sample_helpers ?bad ?ext empty_registry) = tabs empty_registry @ [r]
      \<and> reg_iconClass r = None"
    using icon_degrades [of ?bad sample_helpers ?ext empty_registry] n
    by (simp add: tasks_tab_def absent_tab_def switch_containerkey_def WIDGETS_CONTAINER_def
        sample_helpers_def)
  have g: "\<exists>r. tabs (handleTab sample_helpers ?good ?ext empty_registry) = tabs empty_registry @ [r]
      \<and> reg_iconClass r = Some (createCSSRuleForIcon sample_helpers ?pair ?ext)"
    using icon_degrades [of ?good sample_helpers ?ext empty_registry] y
    by (simp add: tasks_tab_def absent_tab_def switch_containerkey_def WIDGETS_CONTAINER_def
        sample_helpers_def)
  have t: "createCSSRuleForIcon sample_helpers ?pair ?ext = ''contoso.tabs-icon''"
    by (simp add: sample_helpers_def sample_extension_def)
  from b obtain r where "tabs (handleTab sample_helpers ?bad ?ext empty_registry) = [r]"
    and "reg_iconClass r = None"
    by (auto simp: empty_registry_def)
  moreover from g t obtain r' where "tabs (handleTab sample_helpers ?good ?ext empty_registry) = [r']"
    and "reg_iconClass r' = Some ''contoso.tabs-icon''"
    by (auto simp: empty_registry_def)
  ultimately show ?thesis using n y by simp
qed

text \<open>
  C10. A contribution with no title (a fortiori one with no title, no description and
  no container) makes the handler send exactly one diagnostic, the title error: no
  description warning, no container error, nothing registered. In general the checks
  of the handler send exactly one error when the title, container or arity check
  fails and none otherwise: every other error is one that the container validator or
  the icon validator reports.
\<close>

theorem title_error_first:
  "(\<not> truthy (title tab) \<longrightarrow>
      handleTab env tab extension s =
        s\<lparr>collected := collected s
            @ [Diagnostic (ext_identifier (ext_description extension)) Error noTitleError]\<rparr>)
   \<and> count_errors (emitted s (handleTab env tab extension s)) =
       (if \<not> truthy (title tab) \<or> \<not> truthy (container tab)
           \<or> length (object_keys (container tab)) \<noteq> 1
        then 1
        else errors_in (snd (switch_containerkey env extension
               (object_keys (container tab) ! 0) (js_values (container tab) ! 0)))
           + errors_in (snd (isValidIcon env (icon tab) extension)))"
proof -
  have a: "\<not> truthy (title tab) \<longrightarrow>
      handleTab env tab extension s =
        s\<lparr>collected := collected s
            @ [Diagnostic (ext_identifier (ext_description extension)) Error noTitleError]\<rparr>"
    by (simp add: handleTab_def Let_def sink_defs)
  have b: "count_errors (emitted s (handleTab env tab extension s)) =
       (if \<not> truthy (title tab) \<or> \<not> truthy (container tab)
           \<or> length (object_keys (container tab)) \<noteq> 1
        then 1
        else errors_in (snd (switch_containerkey env extension
               (object_keys (container tab) ! 0) (js_values (container tab) ! 0)))
           + errors_in (snd (isValidIcon env (icon tab) extension)))"
    by (simp add: handleTab_def Let_def sink_defs emitted_def count_errors_append
        count_errors_received count_errors_Nil count_errors_Cons)
  from a b show ?thesis by blast
qed

theorem title_error_first_witness:
  "\<not> truthy (title absent_tab) \<and> container absent_tab = JUndefined
   \<and> description absent_tab = JUndefined
   \<and> handleTab sample_helpers absent_tab (sample_extension (Single absent_tab)) empty_registry
     = \<lparr>tabs = [], collected = [Diagnostic ''contoso.tabs'' Error noTitleError]\<rparr>
   \<and> count_errors (emitted empty_registry
        (handleTab sample_helpers absent_tab (sample_extension (Single absent_tab)) empty_registry)) = 1"
proof -
  let ?ext = "sample_extension (Single absent_tab)"
  let ?s' = "handleTab sample_helpers absent_tab ?ext empty_registry"
  note main = title_error_first [of absent_tab sample_helpers ?ext empty_registry]
  have t: "\<not> truthy (title absent_tab)" and c: "container absent_tab = JUndefined"
    and d: "description absent_tab = JUndefined"
    by (simp_all add: absent_tab_def)
  from main t have "?s' = empty_registry\<lparr>collected := collected empty_registry
      @ [Diagnostic (ext_identifier (ext_description ?ext)) Error noTitleError]\<rparr>"
    by blast
  then have e: "?s' = \<lparr>tabs = [], collected = [Diagnostic ''contoso.tabs'' Error noTitleError]\<rparr>"
    by (simp add: empty_registry_def sample_extension_def)
  from main [THEN conjunct2] t have n: "count_errors (emitted empty_registry ?s') = 1"
    by simp
  from t c d e n show ?thesis by blast
qed

subsection \<open>Batches\<close>












subsection \<open>Tab groups\<close>

text \<open>
  C8. Loading the module registers the six fixed tab groups (administration,
  monitoring, performance, security, troubleshooting, settings): one call of the sink
  for each, in the declared order, after whatever was registered before, each once.
\<close>

theorem tab_groups_registered:
  "registerTabGroups gs = gs @ TabGroups
   \<and> map group_id (registerTabGroups []) =
       [''administration'', ''monitoring'', ''performance'', ''security'',
        ''troubleshooting'', ''settings'']
   \<and> length (registerTabGroups []) = 6
   \<and> distinct (map group_id (registerTabGroups []))"
proof -
  have f: "foldl (\<lambda>gs' tabGroup. registerTabGroup tabGroup gs') gs xs = gs @ xs" for gs xs
    by (induction xs arbitrary: gs) (simp_all add: registerTabGroup_def)
  have a: "registerTabGroups gs = gs @ TabGroups" for gs
    by (simp add: registerTabGroups_def f)
  show ?thesis
    by (simp add: a TabGroups_def)
qed

end
